theory Spec2Isabelle
  imports Complex_Main "HOL-Library.Sublist"
begin

section \<open>The pipeline orchestrator of pipeline_orchestrator.py\<close>

text \<open>
  A shallow embedding of the class \<^verbatim>\<open>SnowflakePipelineOrchestrator\<close>. The warehouse is an
  external collaborator reached through one cursor; it is modelled by an executor, a
  function that answers each statement from the statements issued before it. Every
  statement the orchestrator issues is appended, with its answer, to the cursor's log, so
  that what a run did can be read off the final state.

  Outside the model: the \<^verbatim>\<open>logging\<close> calls (they only print), \<^verbatim>\<open>connect\<close> and
  \<^verbatim>\<open>close\<close> (the model starts from a connected orchestrator), and exceptions that are
  not subclasses of \<^verbatim>\<open>Exception\<close> (\<^verbatim>\<open>KeyboardInterrupt\<close>, \<^verbatim>\<open>SystemExit\<close>), which no
  handler of the source catches.
\<close>

subsection \<open>Values, exceptions, statements\<close>

text \<open>
  A cell of a result row, as the connector delivers it: \<^verbatim>\<open>None\<close>, a \<^verbatim>\<open>bool\<close>, an
  \<^verbatim>\<open>int\<close>, a \<^verbatim>\<open>Decimal\<close> (by its exact value), a \<^verbatim>\<open>str\<close>, or a \<^verbatim>\<open>datetime\<close>
  (by its \<^verbatim>\<open>str()\<close>). A \<^verbatim>\<open>float\<close> the code computes is represented by an exact
  rational: rounding is outside the model.
\<close>

datatype cell = CNull | CBool bool | CInt int | CDecimal rat | CText string | CTime string

text \<open>
  The handlers of the source are all \<^verbatim>\<open>except Exception as e\<close> and use only
  \<^verbatim>\<open>str(e)\<close>, so an exception is its class; an error of the connector carries its
  message.
\<close>

datatype exn = DatabaseError string | TypeError | IndexError | ValueError

record cost =
  credits :: rat
  queries :: int

text \<open>
  The \<^verbatim>\<open>details\<close> argument of \<^verbatim>\<open>log_audit_entry\<close> is a formatted string in the source.
  The model keeps the formatted value instead of its rendering; one constructor for each
  string \<^verbatim>\<open>run_pipeline\<close> builds:
  \<^item> \<open>Checked_streams n\<close>: \<^verbatim>\<open>f"Checked {len(streams)} streams"\<close>
  \<^item> \<open>Checked_dynamic_tables\<close>: \<^verbatim>\<open>'Checked dynamic table status'\<close>
  \<^item> \<open>Processed t\<close>: \<^verbatim>\<open>f'Processed {total_changes} changes'\<close>
  \<^item> \<open>Weekly_costs c\<close>: \<^verbatim>\<open>f'Weekly costs: {json.dumps(costs)}'\<close>
  \<^item> \<open>Duration d\<close>: \<^verbatim>\<open>f'Duration: {duration:.2f}s'\<close>
  \<^item> \<open>Error_text e\<close>: \<^verbatim>\<open>str(e)\<close>
\<close>

datatype details =
    Checked_streams nat
  | Checked_dynamic_tables
  | Processed rat
  | Weekly_costs "(cell \<times> cost) list"
  | Duration rat
  | Error_text exn

text \<open>The one bound parameter of the source: \<^verbatim>\<open>f"{event_type}: {details}"\<close>.\<close>

datatype param = Event string details

text \<open>A statement is its SQL text and the tuple of parameters bound to it.\<close>

datatype statement = Statement (sql: string) (params: "param list")

text \<open>
  What the cursor does with a statement: \<^verbatim>\<open>execute\<close> raises, or it succeeds and the
  cursor then delivers rows, possibly raising once those rows are read.
\<close>

datatype response = Raises exn | Result "cell list list" "exn option"

type_synonym executor = "statement list \<Rightarrow> statement \<Rightarrow> response"

text \<open>
  What the model takes from outside the code: Python's \<^verbatim>\<open>str()\<close> of a cell that is not
  text, \<^verbatim>\<open>float()\<close> and \<^verbatim>\<open>int()\<close> of a text (\<open>None\<close> where they raise
  \<^verbatim>\<open>ValueError\<close>), and the wall-clock time between the two \<^verbatim>\<open>datetime.now()\<close> calls.
\<close>

record pyenv =
  str_of :: "cell \<Rightarrow> string"
  float_of_text :: "string \<Rightarrow> rat option"
  int_of_text :: "string \<Rightarrow> int option"
  elapsed :: rat

text \<open>
  The configuration dictionary, with the keys \<^verbatim>\<open>main\<close> gives it that are read after
  the connection is made.
\<close>

record config_dict =
  database :: string
  schema :: string
  init_warehouse :: string
  cdc_warehouse :: string
  interactive_warehouse :: string

text \<open>
  The orchestrator object: its configuration and its cursor. The cursor is the log of
  the statements executed on it, oldest first, each with the executor's answer.
\<close>

record orchestrator =
  config :: config_dict
  cursor :: "(statement \<times> response) list"

definition issued :: "orchestrator \<Rightarrow> statement list" where
  "issued self = map fst (cursor self)"

text \<open>\<^verbatim>\<open>self.cursor.execute(query, params)\<close>\<close>

definition execute :: "executor \<Rightarrow> orchestrator \<Rightarrow> statement \<Rightarrow> response \<times> orchestrator" where
  "execute X self q =
     (let r = X (issued self) q
      in (r, self\<lparr>cursor := cursor self @ [(q, r)]\<rparr>))"

subsection \<open>Python operations on cells\<close>

text \<open>\<^verbatim>\<open>row[i]\<close> on a tuple, for an index that is not negative.\<close>

definition index :: "'a list \<Rightarrow> nat \<Rightarrow> exn + 'a" where
  "index row i = (if i < length row then Inr (row ! i) else Inl IndexError)"

text \<open>\<^verbatim>\<open>self.cursor.fetchone()\<close> after a successful \<^verbatim>\<open>execute\<close>.\<close>

fun fetchone :: "cell list list \<Rightarrow> exn option \<Rightarrow> exn + cell list option" where
  "fetchone (row # rows) err = Inr (Some row)"
| "fetchone [] (Some e) = Inl e"
| "fetchone [] None = Inr None"

text \<open>A cell inside an f-string.\<close>

definition format_cell :: "pyenv \<Rightarrow> cell \<Rightarrow> string" where
  "format_cell P c = (case c of CText s \<Rightarrow> s | _ \<Rightarrow> str_of P c)"

text \<open>\<^verbatim>\<open>float(c)\<close> and \<^verbatim>\<open>int(c)\<close>; the latter truncates a \<^verbatim>\<open>Decimal\<close> towards zero.\<close>

definition py_float :: "pyenv \<Rightarrow> cell \<Rightarrow> exn + rat" where
  "py_float P c =
     (case c of
        CNull \<Rightarrow> Inl TypeError
      | CBool b \<Rightarrow> Inr (if b then 1 else 0)
      | CInt n \<Rightarrow> Inr (of_int n)
      | CDecimal r \<Rightarrow> Inr r
      | CText s \<Rightarrow> (case float_of_text P s of None \<Rightarrow> Inl ValueError | Some r \<Rightarrow> Inr r)
      | CTime t \<Rightarrow> Inl TypeError)"

definition py_int :: "pyenv \<Rightarrow> cell \<Rightarrow> exn + int" where
  "py_int P c =
     (case c of
        CNull \<Rightarrow> Inl TypeError
      | CBool b \<Rightarrow> Inr (if b then 1 else 0)
      | CInt n \<Rightarrow> Inr n
      | CDecimal r \<Rightarrow> Inr (if 0 \<le> r then \<lfloor>r\<rfloor> else \<lceil>r\<rceil>)
      | CText s \<Rightarrow> (case int_of_text P s of None \<Rightarrow> Inl ValueError | Some n \<Rightarrow> Inr n)
      | CTime t \<Rightarrow> Inl TypeError)"

text \<open>
  \<^verbatim>\<open>total_changes += changes\<close>, for a total that started as the \<^verbatim>\<open>int\<close> 0: numbers
  add (a \<^verbatim>\<open>bool\<close> as 0 or 1), anything else raises \<^verbatim>\<open>TypeError\<close>.
\<close>

definition add_changes :: "rat \<Rightarrow> cell \<Rightarrow> exn + rat" where
  "add_changes total_changes c =
     (case c of
        CBool b \<Rightarrow> Inr (total_changes + (if b then 1 else 0))
      | CInt n \<Rightarrow> Inr (total_changes + of_int n)
      | CDecimal r \<Rightarrow> Inr (total_changes + r)
      | _ \<Rightarrow> Inl TypeError)"

subsection \<open>Change monitor\<close>

record stream =
  stream_name :: cell
  table_name :: cell
  is_stale :: cell
  stale_after :: cell

definition streams_query :: string where
  "streams_query =
     ''\<newline>'' @
     ''        SELECT \<newline>'' @
     ''            stream_name,\<newline>'' @
     ''            table_name,\<newline>'' @
     ''            stale,\<newline>'' @
     ''            stale_after\<newline>'' @
     ''        FROM INFORMATION_SCHEMA.STREAMS\<newline>'' @
     ''        WHERE schema_name = 'RAW_DATA'\<newline>'' @
     ''        ORDER BY stream_name;\<newline>'' @
     ''        ''"

text \<open>The body of \<^verbatim>\<open>for row in self.cursor: streams.append({...})\<close>.\<close>

definition stream_of_row :: "cell list \<Rightarrow> exn + stream" where
  "stream_of_row row =
     (case index row 0 of Inl e \<Rightarrow> Inl e | Inr c0 \<Rightarrow>
      case index row 1 of Inl e \<Rightarrow> Inl e | Inr c1 \<Rightarrow>
      case index row 2 of Inl e \<Rightarrow> Inl e | Inr c2 \<Rightarrow>
      case index row 3 of Inl e \<Rightarrow> Inl e | Inr c3 \<Rightarrow>
        Inr \<lparr>stream_name = c0, table_name = c1, is_stale = c2, stale_after = c3\<rparr>)"

fun append_streams :: "stream list \<Rightarrow> cell list list \<Rightarrow> exn option \<Rightarrow> exn + stream list" where
  "append_streams streams [] None = Inr streams"
| "append_streams streams [] (Some e) = Inl e"
| "append_streams streams (row # rows) err =
     (case stream_of_row row of
        Inl e \<Rightarrow> Inl e
      | Inr s \<Rightarrow> append_streams (streams @ [s]) rows err)"

definition check_stream_status :: "executor \<Rightarrow> orchestrator \<Rightarrow> stream list \<times> orchestrator" where
  "check_stream_status X self =
     (case execute X self (Statement streams_query []) of
        (Raises e, self') \<Rightarrow> ([], self')
      | (Result rows err, self') \<Rightarrow>
          (case append_streams [] rows err of
             Inl e \<Rightarrow> ([], self')
           | Inr streams \<Rightarrow> (streams, self')))"

definition count_query :: "pyenv \<Rightarrow> cell \<Rightarrow> string" where
  "count_query P name =
     ''\<newline>'' @
     ''        SELECT COUNT(*) FROM RAW_DATA.'' @ format_cell P name @ '';\<newline>'' @
     ''        ''"

text \<open>
  \<^verbatim>\<open>count = self.cursor.fetchone()[0]\<close>: subscripting \<^verbatim>\<open>None\<close> raises
  \<^verbatim>\<open>TypeError\<close>, an empty row \<^verbatim>\<open>IndexError\<close>.
\<close>

definition first_cell :: "cell list list \<Rightarrow> exn option \<Rightarrow> exn + cell" where
  "first_cell rows err =
     (case fetchone rows err of
        Inl e \<Rightarrow> Inl e
      | Inr None \<Rightarrow> Inl TypeError
      | Inr (Some row) \<Rightarrow> index row 0)"

definition get_stream_change_count ::
  "executor \<Rightarrow> pyenv \<Rightarrow> orchestrator \<Rightarrow> cell \<Rightarrow> cell \<times> orchestrator" where
  "get_stream_change_count X P self name =
     (case execute X self (Statement (count_query P name) []) of
        (Raises e, self') \<Rightarrow> (CInt 0, self')
      | (Result rows err, self') \<Rightarrow>
          (case first_cell rows err of
             Inl e \<Rightarrow> (CInt 0, self')
           | Inr count \<Rightarrow> (count, self')))"

subsection \<open>Refresh watcher\<close>

definition dynamic_tables :: "string list" where
  "dynamic_tables =
     [''STAGING.DT_PATIENTS'',
      ''STAGING.DT_ENCOUNTERS'',
      ''STAGING.DT_PRESCRIPTIONS'',
      ''STAGING.DT_LAB_RESULTS'',
      ''STAGING.DT_VITAL_SIGNS'',
      ''STAGING.DT_PATIENT_SUMMARY'']"

text \<open>\<^verbatim>\<open>s.split(c)\<close> for a separator of one character.\<close>

fun split_on :: "char \<Rightarrow> string \<Rightarrow> string list" where
  "split_on c [] = [[]]"
| "split_on c (x # xs) =
     (if x = c then [] # split_on c xs
      else (case split_on c xs of [] \<Rightarrow> [[x]] | w # ws \<Rightarrow> (x # w) # ws))"

text \<open>
  The f-string of the status query; the two subscripts can raise \<^verbatim>\<open>IndexError\<close>.
  The spliced names stand between single quotes (character 0x27).
\<close>

definition dynamic_table_query :: "string \<Rightarrow> exn + string" where
  "dynamic_table_query table =
     (case index (split_on CHR ''.'' table) 1 of Inl e \<Rightarrow> Inl e | Inr name \<Rightarrow>
      case index (split_on CHR ''.'' table) 0 of Inl e \<Rightarrow> Inl e | Inr schema_name \<Rightarrow>
        Inr (''\<newline>'' @
             ''                SELECT \<newline>'' @
             ''                    name,\<newline>'' @
             ''                    target_lag,\<newline>'' @
             ''                    refresh_mode,\<newline>'' @
             ''                    last_refresh_time\<newline>'' @
             ''                FROM INFORMATION_SCHEMA.DYNAMIC_TABLES\<newline>'' @
             ''                WHERE name = '' @ [CHR 0x27] @ name @ [CHR 0x27] @ ''\<newline>'' @
             ''                AND schema_name = '' @ [CHR 0x27] @ schema_name @ [CHR 0x27] @ '';\<newline>'' @
             ''                ''))"

text \<open>
  The body of the loop over \<^verbatim>\<open>dynamic_tables\<close>: one \<^verbatim>\<open>try\<close> around the query, the
  \<^verbatim>\<open>fetchone\<close> and the log line that reads \<^verbatim>\<open>result[3]\<close>. Every way out leaves the
  orchestrator as the \<^verbatim>\<open>execute\<close> left it.
\<close>

definition check_table :: "executor \<Rightarrow> orchestrator \<Rightarrow> string \<Rightarrow> orchestrator" where
  "check_table X self table =
     (case dynamic_table_query table of
        Inl e \<Rightarrow> self
      | Inr q \<Rightarrow>
          (case execute X self (Statement q []) of
             (Raises e, self') \<Rightarrow> self'
           | (Result rows err, self') \<Rightarrow>
               (case fetchone rows err of
                  Inl e \<Rightarrow> self'
                | Inr None \<Rightarrow> self'
                | Inr (Some result) \<Rightarrow>
                    (if result \<noteq> []
                     then (case index result 3 of Inl e \<Rightarrow> self' | Inr c \<Rightarrow> self')
                     else self'))))"

fun check_tables :: "executor \<Rightarrow> orchestrator \<Rightarrow> string list \<Rightarrow> orchestrator" where
  "check_tables X self [] = self"
| "check_tables X self (table # tables) = check_tables X (check_table X self table) tables"

text \<open>The tier switch stands before the loop, outside every \<^verbatim>\<open>try\<close>.\<close>

definition use_warehouse :: "string \<Rightarrow> statement" where
  "use_warehouse name = Statement (''USE WAREHOUSE '' @ name) []"

definition refresh_dynamic_tables :: "executor \<Rightarrow> orchestrator \<Rightarrow> (exn + unit) \<times> orchestrator" where
  "refresh_dynamic_tables X self =
     (case execute X self (use_warehouse (cdc_warehouse (config self))) of
        (Raises e, self') \<Rightarrow> (Inl e, self')
      | (Result rows err, self') \<Rightarrow> (Inr (), check_tables X self' dynamic_tables))"

subsection \<open>Fact populator\<close>

text \<open>Each \<^verbatim>\<open>INSERT\<close> ends with the quote that closes \<^verbatim>\<open>'DELETE'\<close> (character 0x27).\<close>

definition analytics_queries :: "string list" where
  "analytics_queries =
     [''TRUNCATE TABLE ANALYTICS.PATIENTS_FACT'',
      ''INSERT INTO ANALYTICS.PATIENTS_FACT\<newline>'' @
      ''               SELECT * FROM STAGING.DT_PATIENTS\<newline>'' @
      ''               WHERE _cdc_operation != 'DELETE'' @ [CHR 0x27],

      ''TRUNCATE TABLE ANALYTICS.ENCOUNTERS_FACT'',
      ''INSERT INTO ANALYTICS.ENCOUNTERS_FACT\<newline>'' @
      ''               SELECT * FROM STAGING.DT_ENCOUNTERS \<newline>'' @
      ''               WHERE _cdc_operation != 'DELETE'' @ [CHR 0x27],

      ''TRUNCATE TABLE ANALYTICS.PRESCRIPTIONS_FACT'',
      ''INSERT INTO ANALYTICS.PRESCRIPTIONS_FACT\<newline>'' @
      ''               SELECT * FROM STAGING.DT_PRESCRIPTIONS\<newline>'' @
      ''               WHERE _cdc_operation != 'DELETE'' @ [CHR 0x27],

      ''TRUNCATE TABLE ANALYTICS.LAB_RESULTS_FACT'',
      ''INSERT INTO ANALYTICS.LAB_RESULTS_FACT\<newline>'' @
      ''               SELECT * FROM STAGING.DT_LAB_RESULTS\<newline>'' @
      ''               WHERE _cdc_operation != 'DELETE'' @ [CHR 0x27],

      ''TRUNCATE TABLE ANALYTICS.VITAL_SIGNS_FACT'',
      ''INSERT INTO ANALYTICS.VITAL_SIGNS_FACT\<newline>'' @
      ''               SELECT * FROM STAGING.DT_VITAL_SIGNS\<newline>'' @
      ''               WHERE _cdc_operation != 'DELETE'' @ [CHR 0x27]]"

text \<open>The loop over \<^verbatim>\<open>analytics_queries\<close>: each statement in a \<^verbatim>\<open>try\<close> of its own.\<close>

fun run_queries :: "executor \<Rightarrow> orchestrator \<Rightarrow> string list \<Rightarrow> orchestrator" where
  "run_queries X self [] = self"
| "run_queries X self (query # rest) =
     (case execute X self (Statement query []) of
        (Raises e, self') \<Rightarrow> run_queries X self' rest
      | (Result rows err, self') \<Rightarrow> run_queries X self' rest)"

definition populate_analytics_tables ::
  "executor \<Rightarrow> orchestrator \<Rightarrow> (exn + unit) \<times> orchestrator" where
  "populate_analytics_tables X self =
     (case execute X self (use_warehouse (interactive_warehouse (config self))) of
        (Raises e, self') \<Rightarrow> (Inl e, self')
      | (Result rows err, self') \<Rightarrow> (Inr (), run_queries X self' analytics_queries))"

subsection \<open>Cost accountant\<close>

definition costs_query :: string where
  "costs_query =
     ''\<newline>'' @
     ''        SELECT \<newline>'' @
     ''            warehouse_name,\<newline>'' @
     ''            SUM(credits_used) as total_credits,\<newline>'' @
     ''            COUNT(*) as query_count\<newline>'' @
     ''        FROM SNOWFLAKE.ACCOUNT_USAGE.WAREHOUSE_METERING_HISTORY\<newline>'' @
     ''        WHERE start_time >= DATEADD(day, -7, CURRENT_TIMESTAMP())\<newline>'' @
     ''        AND warehouse_name IN ('CLINICAL_INIT_WH', 'CLINICAL_CDC_WH', 'CLINICAL_INTERACTIVE_WH')\<newline>'' @
     ''        GROUP BY warehouse_name;\<newline>'' @
     ''        ''"

text \<open>
  A Python \<^verbatim>\<open>dict\<close> as an association list in insertion order. Keys are compared as
  Python compares them: numbers by value (so \<^verbatim>\<open>1\<close>, \<^verbatim>\<open>True\<close> and \<^verbatim>\<open>Decimal(1)\<close> are
  one key), everything else within its own type. Assigning to a key that is present
  replaces the value and keeps the key.
\<close>

definition number :: "cell \<Rightarrow> rat option" where
  "number c =
     (case c of
        CBool b \<Rightarrow> Some (if b then 1 else 0)
      | CInt n \<Rightarrow> Some (of_int n)
      | CDecimal r \<Rightarrow> Some r
      | _ \<Rightarrow> None)"

definition key_eq :: "cell \<Rightarrow> cell \<Rightarrow> bool" where
  "key_eq a b =
     (case (number a, number b) of
        (Some x, Some y) \<Rightarrow> x = y
      | (None, None) \<Rightarrow> a = b
      | _ \<Rightarrow> False)"

fun dict_set :: "(cell \<times> 'v) list \<Rightarrow> cell \<Rightarrow> 'v \<Rightarrow> (cell \<times> 'v) list" where
  "dict_set [] k v = [(k, v)]"
| "dict_set ((k', v') # d) k v =
     (if key_eq k' k then (k', v) # d else (k', v') # dict_set d k v)"

text \<open>
  \<^verbatim>\<open>costs[row[0]] = {'credits': float(row[1]), 'queries': int(row[2])}\<close>: Python
  evaluates the right-hand side before the subscript of the target.
\<close>

definition set_cost :: "pyenv \<Rightarrow> (cell \<times> cost) list \<Rightarrow> cell list \<Rightarrow> exn + (cell \<times> cost) list" where
  "set_cost P costs row =
     (case index row 1 of Inl e \<Rightarrow> Inl e | Inr c1 \<Rightarrow>
      case py_float P c1 of Inl e \<Rightarrow> Inl e | Inr cr \<Rightarrow>
      case index row 2 of Inl e \<Rightarrow> Inl e | Inr c2 \<Rightarrow>
      case py_int P c2 of Inl e \<Rightarrow> Inl e | Inr n \<Rightarrow>
      case index row 0 of Inl e \<Rightarrow> Inl e | Inr c0 \<Rightarrow>
        Inr (dict_set costs c0 \<lparr>credits = cr, queries = n\<rparr>))"

fun set_costs ::
  "pyenv \<Rightarrow> (cell \<times> cost) list \<Rightarrow> cell list list \<Rightarrow> exn option \<Rightarrow> exn + (cell \<times> cost) list" where
  "set_costs P costs [] None = Inr costs"
| "set_costs P costs [] (Some e) = Inl e"
| "set_costs P costs (row # rows) err =
     (case set_cost P costs row of
        Inl e \<Rightarrow> Inl e
      | Inr costs' \<Rightarrow> set_costs P costs' rows err)"

definition get_warehouse_costs ::
  "executor \<Rightarrow> pyenv \<Rightarrow> orchestrator \<Rightarrow> (cell \<times> cost) list \<times> orchestrator" where
  "get_warehouse_costs X P self =
     (case execute X self (Statement costs_query []) of
        (Raises e, self') \<Rightarrow> ([], self')
      | (Result rows err, self') \<Rightarrow>
          (case set_costs P [] rows err of
             Inl e \<Rightarrow> ([], self')
           | Inr costs \<Rightarrow> (costs, self')))"

subsection \<open>Audit recorder\<close>

definition audit_query :: string where
  "audit_query =
     ''\<newline>'' @
     ''        INSERT INTO AUDIT.ACCESS_LOG (\<newline>'' @
     ''            user_name, role_name, query_text, \<newline>'' @
     ''            database_name, schema_name, execution_status\<newline>'' @
     ''        )\<newline>'' @
     ''        VALUES (\<newline>'' @
     ''            CURRENT_USER(), CURRENT_ROLE(), %s,\<newline>'' @
     ''            'CLINICAL_DATA_PIPELINE', 'PIPELINE', 'SUCCESS'\<newline>'' @
     ''        );\<newline>'' @
     ''        ''"

definition log_audit_entry ::
  "executor \<Rightarrow> orchestrator \<Rightarrow> string \<Rightarrow> details \<Rightarrow> orchestrator" where
  "log_audit_entry X self event_type details =
     (case execute X self (Statement audit_query [Event event_type details]) of
        (Raises e, self') \<Rightarrow> self'
      | (Result rows err, self') \<Rightarrow> self')"

subsection \<open>Pipeline orchestrator\<close>

text \<open>
  \<^verbatim>\<open>json.dumps(costs)\<close>: a key that is a \<^verbatim>\<open>Decimal\<close> or a \<^verbatim>\<open>datetime\<close> raises
  \<^verbatim>\<open>TypeError\<close>; the values are a \<^verbatim>\<open>float\<close> and an \<^verbatim>\<open>int\<close> and always render. The
  model keeps the dictionary in place of its rendering.
\<close>

definition json_key :: "cell \<Rightarrow> bool" where
  "json_key c = (case c of CDecimal r \<Rightarrow> False | CTime t \<Rightarrow> False | _ \<Rightarrow> True)"

definition json_dumps :: "(cell \<times> cost) list \<Rightarrow> exn + (cell \<times> cost) list" where
  "json_dumps costs = (if list_all (\<lambda>(k, v). json_key k) costs then Inr costs else Inl TypeError)"

text \<open>
  The \<^verbatim>\<open>try\<close> block of \<^verbatim>\<open>run_pipeline\<close>, one function for each numbered step of the
  source. A step returns \<open>Inl e\<close> with the orchestrator as it was when \<open>e\<close> was raised.
\<close>

text \<open>\<^verbatim>\<open># 1. Check stream status\<close>\<close>

definition step_check_streams :: "executor \<Rightarrow> orchestrator \<Rightarrow> stream list \<times> orchestrator" where
  "step_check_streams X self =
     (case check_stream_status X self of
        (streams, self') \<Rightarrow>
          (streams, log_audit_entry X self' ''STREAM_CHECK'' (Checked_streams (length streams))))"

text \<open>\<^verbatim>\<open># 2. Get change counts\<close>: the loop over the streams, from the total so far.\<close>

fun count_changes ::
  "executor \<Rightarrow> pyenv \<Rightarrow> orchestrator \<Rightarrow> rat \<Rightarrow> stream list \<Rightarrow> (exn + rat) \<times> orchestrator" where
  "count_changes X P self total_changes [] = (Inr total_changes, self)"
| "count_changes X P self total_changes (s # streams) =
     (case get_stream_change_count X P self (stream_name s) of
        (changes, self') \<Rightarrow>
          (case add_changes total_changes changes of
             Inl e \<Rightarrow> (Inl e, self')
           | Inr total_changes' \<Rightarrow> count_changes X P self' total_changes' streams))"

text \<open>\<^verbatim>\<open># 3. Refresh dynamic tables (they auto-refresh, we just monitor)\<close>\<close>

definition step_dynamic_tables :: "executor \<Rightarrow> orchestrator \<Rightarrow> (exn + unit) \<times> orchestrator" where
  "step_dynamic_tables X self =
     (case refresh_dynamic_tables X self of
        (Inl e, self') \<Rightarrow> (Inl e, self')
      | (Inr u, self') \<Rightarrow>
          (Inr (), log_audit_entry X self' ''DYNAMIC_TABLES'' Checked_dynamic_tables))"

text \<open>\<^verbatim>\<open># 4. Populate analytics tables\<close>\<close>

definition step_populate ::
  "executor \<Rightarrow> orchestrator \<Rightarrow> rat \<Rightarrow> (exn + unit) \<times> orchestrator" where
  "step_populate X self total_changes =
     (if total_changes > 0
      then (case populate_analytics_tables X self of
              (Inl e, self') \<Rightarrow> (Inl e, self')
            | (Inr u, self') \<Rightarrow>
                (Inr (), log_audit_entry X self' ''ANALYTICS_REFRESH'' (Processed total_changes)))
      else (Inr (), self))"

text \<open>\<^verbatim>\<open># 5. Get cost metrics\<close>\<close>

definition step_costs :: "executor \<Rightarrow> pyenv \<Rightarrow> orchestrator \<Rightarrow> (exn + unit) \<times> orchestrator" where
  "step_costs X P self =
     (case get_warehouse_costs X P self of
        (costs, self') \<Rightarrow>
          (case json_dumps costs of
             Inl e \<Rightarrow> (Inl e, self')
           | Inr rendered \<Rightarrow>
               (Inr (), log_audit_entry X self' ''COST_TRACKING'' (Weekly_costs rendered))))"

text \<open>\<^verbatim>\<open># 6. Log completion\<close>\<close>

definition step_complete :: "executor \<Rightarrow> pyenv \<Rightarrow> orchestrator \<Rightarrow> orchestrator" where
  "step_complete X P self = log_audit_entry X self ''PIPELINE_COMPLETE'' (Duration (elapsed P))"

definition try_block :: "executor \<Rightarrow> pyenv \<Rightarrow> orchestrator \<Rightarrow> (exn + unit) \<times> orchestrator" where
  "try_block X P self =
     (case step_check_streams X self of (streams, s1) \<Rightarrow>
      case count_changes X P s1 0 streams of
        (Inl e, s2) \<Rightarrow> (Inl e, s2)
      | (Inr total_changes, s2) \<Rightarrow>
      case step_dynamic_tables X s2 of
        (Inl e, s3) \<Rightarrow> (Inl e, s3)
      | (Inr u, s3) \<Rightarrow>
      case step_populate X s3 total_changes of
        (Inl e, s4) \<Rightarrow> (Inl e, s4)
      | (Inr u, s4) \<Rightarrow>
      case step_costs X P s4 of
        (Inl e, s5) \<Rightarrow> (Inl e, s5)
      | (Inr u, s5) \<Rightarrow> (Inr (), step_complete X P s5))"

definition run_pipeline :: "executor \<Rightarrow> pyenv \<Rightarrow> orchestrator \<Rightarrow> bool \<times> orchestrator" where
  "run_pipeline X P self =
     (case try_block X P self of
        (Inr u, self') \<Rightarrow> (True, self')
      | (Inl e, self') \<Rightarrow> (False, log_audit_entry X self' ''PIPELINE_ERROR'' (Error_text e)))"

text \<open>
  \<^verbatim>\<open>main\<close>, from the outcome of \<^verbatim>\<open>connect()\<close> on: the exit code of the process.
  (\<^verbatim>\<open>close()\<close> is taken not to raise.)
\<close>

definition main_config :: config_dict where
  "main_config =
     \<lparr>database = ''CLINICAL_DATA_PIPELINE'',
      schema = ''RAW_DATA'',
      init_warehouse = ''CLINICAL_INIT_WH'',
      cdc_warehouse = ''CLINICAL_CDC_WH'',
      interactive_warehouse = ''CLINICAL_INTERACTIVE_WH''\<rparr>"

definition main :: "executor \<Rightarrow> pyenv \<Rightarrow> bool \<Rightarrow> int" where
  "main X P connect_ok =
     (if connect_ok
      then (case run_pipeline X P \<lparr>config = main_config, cursor = []\<rparr> of
              (success, self') \<Rightarrow> (if success then 0 else 1))
      else 1)"

subsection \<open>Reading a run off the cursor\<close>

text \<open>
  The audit entries a run submitted: the parameters of the statements with the text of
  \<open>audit_query\<close>, in order; and those among them the executor accepted.
\<close>

definition is_audit :: "statement \<Rightarrow> bool" where
  "is_audit q = (sql q = audit_query)"

definition audit_entries :: "orchestrator \<Rightarrow> param list" where
  "audit_entries self = concat (map params (filter is_audit (issued self)))"

definition accepted :: "response \<Rightarrow> bool" where
  "accepted r = (case r of Raises e \<Rightarrow> False | Result rows err \<Rightarrow> True)"

definition audit_written :: "orchestrator \<Rightarrow> param list" where
  "audit_written self =
     concat (map (\<lambda>(q, r). params q) (filter (\<lambda>(q, r). is_audit q \<and> accepted r) (cursor self)))"

text \<open>
  The answers an executor gives to a sequence of statements issued one after the other,
  from the history \<open>h\<close> on; and the orchestrator after its cursor executed further
  statements.
\<close>

fun answers :: "executor \<Rightarrow> statement list \<Rightarrow> statement list \<Rightarrow> (statement \<times> response) list" where
  "answers X h [] = []"
| "answers X h (q # qs) = (q, X h q) # answers X (h @ [q]) qs"

definition extend :: "orchestrator \<Rightarrow> (statement \<times> response) list \<Rightarrow> orchestrator" where
  "extend self l = self\<lparr>cursor := cursor self @ l\<rparr>"


definition table_statements :: "string list \<Rightarrow> statement list" where
  "table_statements tables =
     concat (map (\<lambda>t. case dynamic_table_query t of Inl e \<Rightarrow> [] | Inr q \<Rightarrow> [Statement q []])
       tables)"

definition count_statements :: "pyenv \<Rightarrow> stream list \<Rightarrow> statement list" where
  "count_statements P streams = map (\<lambda>s. Statement (count_query P (stream_name s)) []) streams"

definition populate_statements :: "config_dict \<Rightarrow> statement list" where
  "populate_statements c =
     use_warehouse (interactive_warehouse c) # map (\<lambda>q. Statement q []) analytics_queries"

text \<open>The run up to the end of step 2: the total of the pending changes.\<close>

definition counted :: "executor \<Rightarrow> pyenv \<Rightarrow> orchestrator \<Rightarrow> (exn + rat) \<times> orchestrator" where
  "counted X P self =
     (case step_check_streams X self of (streams, s1) \<Rightarrow> count_changes X P s1 0 streams)"

text \<open>The entries a call added to the cursor, and the audit parameters among statements.\<close>

definition new_entries :: "orchestrator \<Rightarrow> orchestrator \<Rightarrow> (statement \<times> response) list" where
  "new_entries self self' = drop (length (cursor self)) (cursor self')"

definition audits_of :: "statement list \<Rightarrow> param list" where
  "audits_of qs = concat (map params (filter is_audit qs))"

fun event_name :: "param \<Rightarrow> string" where
  "event_name (Event ev d) = ev"

subsection \<open>The fact population as the specification words it\<close>

text \<open>
  The specification's description of the populator, to compare the source's statements
  with: for each of five entities, in this order, truncate the fact table, then insert
  all rows of the staged table whose change-operation marker is not \<^verbatim>\<open>DELETE\<close>. SQL
  does not distinguish the amounts of white space between its words, so the statements
  are compared word by word.
\<close>

definition tokens :: "string \<Rightarrow> string list" where
  "tokens s =
     filter (\<lambda>w. w \<noteq> [])
       (split_on CHR '' '' (map (\<lambda>c. if c = CHR ''\<newline>'' then CHR '' '' else c) s))"

definition spec_entities :: "string list" where
  "spec_entities =
     [''PATIENTS'', ''ENCOUNTERS'', ''PRESCRIPTIONS'', ''LAB_RESULTS'', ''VITAL_SIGNS'']"

definition spec_replace :: "string \<Rightarrow> string list list" where
  "spec_replace e =
     [[''TRUNCATE'', ''TABLE'', ''ANALYTICS.'' @ e @ ''_FACT''],
      [''INSERT'', ''INTO'', ''ANALYTICS.'' @ e @ ''_FACT'',
       ''SELECT'', ''*'', ''FROM'', ''STAGING.DT_'' @ e,
       ''WHERE'', ''_cdc_operation'', ''!='', [CHR 0x27] @ ''DELETE'' @ [CHR 0x27]]]"

subsection \<open>Concrete warehouses\<close>

text \<open>
  Executors and an environment to run the model on: the orchestrator as \<^verbatim>\<open>main\<close>
  creates it, a warehouse where every statement raises, and one that refuses every
  \<^verbatim>\<open>TRUNCATE\<close> and accepts everything else.
\<close>

definition py0 :: pyenv where
  "py0 = \<lparr>str_of = (\<lambda>c. ''?''), float_of_text = (\<lambda>s. None), int_of_text = (\<lambda>s. None),
          elapsed = 2\<rparr>"

definition start :: orchestrator where
  "start = \<lparr>config = main_config, cursor = []\<rparr>"

definition warehouse_down :: executor where
  "warehouse_down h q = Raises (DatabaseError ''warehouse unavailable'')"

definition truncate_fails :: executor where
  "truncate_fails h q =
     (if prefix ''TRUNCATE'' (sql q) then Raises (DatabaseError ''insufficient privileges'')
      else Result [] None)"

section \<open>Properties\<close>

subsection \<open>The cursor\<close>

lemma execute_eq:
  "execute X self q = (X (issued self) q, self\<lparr>cursor := cursor self @ [(q, X (issued self) q)]\<rparr>)"
  by (simp add: execute_def Let_def)

lemma extend_Nil [simp]: "extend s [] = s"
  by (simp add: extend_def)

lemma extend_extend [simp]: "extend (extend s l) l' = extend s (l @ l')"
  by (simp add: extend_def)

lemma issued_extend [simp]: "issued (extend s l) = issued s @ map fst l"
  by (simp add: extend_def issued_def)

lemma config_extend [simp]: "config (extend s l) = config s"
  by (simp add: extend_def)

lemma cursor_extend [simp]: "cursor (extend s l) = cursor s @ l"
  by (simp add: extend_def)

lemma map_fst_answers [simp]: "map fst (answers X h qs) = qs"
  by (induction qs arbitrary: h) simp_all

lemma length_answers [simp]: "length (answers X h qs) = length qs"
  by (induction qs arbitrary: h) simp_all

lemma answers_append:
  "answers X h (qs @ qs') = answers X h qs @ answers X (h @ qs) qs'"
  by (induction qs arbitrary: h) simp_all

lemma execute_extend:
  "execute X s q = (X (issued s) q, extend s [(q, X (issued s) q)])"
  by (simp add: execute_def extend_def Let_def)


lemma run_queries_extend:
  "run_queries X s qs = extend s (answers X (issued s) (map (\<lambda>q. Statement q []) qs))"
  by (induction qs arbitrary: s) (simp_all add: execute_extend split: response.splits)

lemma check_table_extend:
  "check_table X s t = extend s (answers X (issued s) (table_statements [t]))"
  by (simp add: check_table_def table_statements_def execute_extend
      split: sum.splits response.splits option.splits)

lemma table_statements_Cons:
  "table_statements (t # ts) = table_statements [t] @ table_statements ts"
  by (simp add: table_statements_def)

lemma check_tables_extend:
  "check_tables X s ts = extend s (answers X (issued s) (table_statements ts))"
proof (induction ts arbitrary: s)
  case Nil
  show ?case by (simp add: table_statements_def)
next
  case (Cons t ts)
  show ?case
    by (simp add: Cons.IH check_table_extend table_statements_Cons [of t ts] answers_append)
qed

lemma refresh_dynamic_tables_extend:
  "refresh_dynamic_tables X s =
     (let u = use_warehouse (cdc_warehouse (config s)) in
      case X (issued s) u of
        Raises e \<Rightarrow> (Inl e, extend s [(u, Raises e)])
      | Result rows err \<Rightarrow>
          (Inr (), extend s (answers X (issued s) (u # table_statements dynamic_tables))))"
  by (simp add: refresh_dynamic_tables_def execute_extend check_tables_extend Let_def
      split: response.splits)

lemma populate_analytics_tables_extend:
  "populate_analytics_tables X s =
     (let u = use_warehouse (interactive_warehouse (config s)) in
      case X (issued s) u of
        Raises e \<Rightarrow> (Inl e, extend s [(u, Raises e)])
      | Result rows err \<Rightarrow>
          (Inr (), extend s (answers X (issued s) (u # map (\<lambda>q. Statement q []) analytics_queries))))"
  by (simp add: populate_analytics_tables_def execute_extend run_queries_extend Let_def
      split: response.splits)

lemma check_stream_status_extend:
  "snd (check_stream_status X s) = extend s (answers X (issued s) [Statement streams_query []])"
  by (simp add: check_stream_status_def execute_extend split: response.splits sum.splits)

lemma get_stream_change_count_extend:
  "snd (get_stream_change_count X P s name) =
     extend s (answers X (issued s) [Statement (count_query P name) []])"
  by (simp add: get_stream_change_count_def execute_extend split: response.splits sum.splits)

lemma get_warehouse_costs_extend:
  "snd (get_warehouse_costs X P s) = extend s (answers X (issued s) [Statement costs_query []])"
  by (simp add: get_warehouse_costs_def execute_extend split: response.splits sum.splits)

lemma count_changes_extend:
  "\<exists>k. snd (count_changes X P s t streams) =
         extend s (answers X (issued s) (count_statements P (take k streams)))
       \<and> (\<forall>t'. fst (count_changes X P s t streams) = Inr t' \<longrightarrow> k = length streams)"
proof (induction streams arbitrary: s t)
  case Nil
  show ?case by (simp add: count_statements_def)
next
  case (Cons st streams)
  obtain c s' where g: "get_stream_change_count X P s (stream_name st) = (c, s')"
    by (cases "get_stream_change_count X P s (stream_name st)")
  have s': "s' = extend s (answers X (issued s) [Statement (count_query P (stream_name st)) []])"
    using get_stream_change_count_extend [of X P s "stream_name st"] g by simp
  show ?case
  proof (cases "add_changes t c")
    case (Inl e)
    with g s' show ?thesis
      by (intro exI [of _ 1]) (simp add: count_statements_def)
  next
    case (Inr t1)
    from Cons.IH [of s' t1] obtain k where
      k: "snd (count_changes X P s' t1 streams) =
            extend s' (answers X (issued s') (count_statements P (take k streams)))"
         "\<forall>t'. fst (count_changes X P s' t1 streams) = Inr t' \<longrightarrow> k = length streams"
      by blast
    with g s' Inr show ?thesis
      by (intro exI [of _ "Suc k"]) (simp add: count_statements_def)
  qed
qed

subsection \<open>Change monitor\<close>

lemma first_cell_eq:
  "first_cell rows err =
     (case rows of
        [] \<Rightarrow> (case err of Some e \<Rightarrow> Inl e | None \<Rightarrow> Inl TypeError)
      | [] # rest \<Rightarrow> Inl IndexError
      | (c # row) # rest \<Rightarrow> Inr c)"
  by (cases rows; cases err) (simp_all add: first_cell_def index_def split: list.splits)

text \<open>
  Claim C7. \<^verbatim>\<open>get_stream_change_count\<close> issues the one statement
  \<^verbatim>\<open>SELECT COUNT(*) FROM RAW_DATA.<stream_name>;\<close> and always returns a value: 0 when
  \<^verbatim>\<open>execute\<close> raises, and 0 as well when the cursor has no row to give, raises on the
  fetch or gives an empty row (the other ways the \<^verbatim>\<open>try\<close> body can fail); otherwise the
  first cell of the first row, which is the count the statement asked for. No case
  raises: the function has no error result.
\<close>

theorem get_stream_change_count_fails_soft:
  "get_stream_change_count X P self name =
     (let q = Statement (count_query P name) []; r = X (issued self) q
      in (case r of
            Raises e \<Rightarrow> CInt 0
          | Result [] err \<Rightarrow> CInt 0
          | Result ([] # rows) err \<Rightarrow> CInt 0
          | Result ((count # row) # rows) err \<Rightarrow> count,
          self\<lparr>cursor := cursor self @ [(q, r)]\<rparr>))
   \<and> count_query P (CText s) =
       ''\<newline>        SELECT COUNT(*) FROM RAW_DATA.'' @ s @ '';\<newline>        ''"
  by (simp add: get_stream_change_count_def execute_eq first_cell_eq Let_def
        count_query_def format_cell_def
      split: response.splits list.splits option.splits)





subsection \<open>Audit recorder\<close>


subsection \<open>Fact populator\<close>

lemma tokens_queries: "map tokens analytics_queries = concat (map spec_replace spec_entities)"
  by code_simp

lemma length_analytics_queries: "length analytics_queries = 10"
  by (simp add: analytics_queries_def)

lemma answers_nth:
  "k < length qs \<Longrightarrow> answers X h qs ! k = (qs ! k, X (h @ take k qs) (qs ! k))"
proof (induction qs arbitrary: h k)
  case Nil
  then show ?case by simp
next
  case (Cons q qs)
  show ?case
  proof (cases k)
    case 0
    then show ?thesis by simp
  next
    case (Suc j)
    with Cons.prems have "j < length qs" by simp
    from Cons.IH [OF this, of "h @ [q]"] Suc show ?thesis by simp
  qed
qed

lemma entity_tokens:
  "i < 5 \<Longrightarrow>
   tokens (analytics_queries ! (2 * i)) = spec_replace (spec_entities ! i) ! 0 \<and>
   tokens (analytics_queries ! (2 * i + 1)) = spec_replace (spec_entities ! i) ! 1"
proof -
  assume "i < 5"
  then consider "i = 0" | "i = 1" | "i = 2" | "i = 3" | "i = 4" by linarith
  then show ?thesis
  proof cases
    case 1 then show ?thesis by (simp only:) code_simp
  next
    case 2 then show ?thesis by (simp only:) code_simp
  next
    case 3 then show ?thesis by (simp only:) code_simp
  next
    case 4 then show ?thesis by (simp only:) code_simp
  next
    case 5 then show ?thesis by (simp only:) code_simp
  qed
qed

text \<open>
  Claim C2, as stated, fails where the tier switch raises: the switch stands outside
  every \<^verbatim>\<open>try\<close>, so \<^verbatim>\<open>populate_analytics_tables\<close> raises with it and no entity
  receives a statement. On a warehouse where every statement raises the cursor holds
  the switch alone.
\<close>

theorem populate_switch_raises:
  "populate_analytics_tables warehouse_down start =
     (Inl (DatabaseError ''warehouse unavailable''),
      \<lparr>config = main_config,
       cursor = [(Statement ''USE WAREHOUSE CLINICAL_INTERACTIVE_WH'' [],
                  Raises (DatabaseError ''warehouse unavailable''))]\<rparr>)"
  by (simp add: populate_analytics_tables_def execute_eq warehouse_down_def start_def
      main_config_def use_warehouse_def issued_def)

text \<open>
  Claim C2, amended. \<^verbatim>\<open>populate_analytics_tables\<close> first issues the switch to the
  interactive tier. When the switch does not raise, it returns normally and has issued,
  after the switch, the ten statements of \<open>analytics_queries\<close> in their order, whatever
  the executor answered to any of them. Read word by word, these are, for each of the
  five entities PATIENTS, ENCOUNTERS, PRESCRIPTIONS, LAB_RESULTS, VITAL_SIGNS in this
  order, one \<^verbatim>\<open>TRUNCATE\<close> of the entity's fact table and then one \<^verbatim>\<open>INSERT\<close> of the
  rows of its staged table \<^verbatim>\<open>WHERE _cdc_operation != 'DELETE'\<close>.
\<close>

theorem populate_each_entity:
  assumes "accepted (X (issued self) (use_warehouse (interactive_warehouse (config self))))"
  shows "populate_analytics_tables X self =
           (Inr (), extend self (answers X (issued self) (populate_statements (config self))))
         \<and> populate_statements (config self) =
             use_warehouse (interactive_warehouse (config self)) #
             map (\<lambda>q. Statement q []) analytics_queries
         \<and> map tokens analytics_queries = concat (map spec_replace spec_entities)
         \<and> distinct spec_entities \<and> length spec_entities = 5"
proof -
  from assms have "populate_analytics_tables X self =
           (Inr (), extend self (answers X (issued self) (populate_statements (config self))))"
    by (simp add: populate_analytics_tables_extend populate_statements_def accepted_def Let_def
        split: response.splits)
  moreover have "distinct spec_entities \<and> length spec_entities = 5"
    by (simp add: spec_entities_def)
  ultimately show ?thesis
    by (simp add: tokens_queries populate_statements_def)
qed

theorem populate_each_entity_witness:
  "issued (snd (populate_analytics_tables truncate_fails start)) =
     use_warehouse ''CLINICAL_INTERACTIVE_WH'' # map (\<lambda>q. Statement q []) analytics_queries"
  using populate_each_entity [of truncate_fails start]
  by (simp add: truncate_fails_def start_def main_config_def use_warehouse_def accepted_def
      issued_def)

text \<open>
  Claim C10. Each statement of \<open>analytics_queries\<close> has a \<^verbatim>\<open>try\<close> of its own. When the
  switch did not raise and the executor raises on the \<^verbatim>\<open>TRUNCATE\<close> of the \<open>i\<close>-th entity,
  the next entry of the cursor is the \<^verbatim>\<open>INSERT\<close> of the same entity, with whatever the
  executor answers to it: the rows are inserted into a table that was not truncated.
\<close>

theorem truncate_failure_keeps_insert:
  assumes switch: "accepted (X (issued self) (use_warehouse (interactive_warehouse (config self))))"
    and i: "i < 5"
    and fails: "X (issued self @ take (Suc (2 * i)) (populate_statements (config self)))
                  (Statement (analytics_queries ! (2 * i)) []) = Raises e"
  shows "take 2 (drop (Suc (2 * i))
           (new_entries self (snd (populate_analytics_tables X self)))) =
         [(Statement (analytics_queries ! (2 * i)) [], Raises e),
          (Statement (analytics_queries ! (2 * i + 1)) [],
           X (issued self @ take (Suc (Suc (2 * i))) (populate_statements (config self)))
             (Statement (analytics_queries ! (2 * i + 1)) []))]
       \<and> tokens (analytics_queries ! (2 * i)) = spec_replace (spec_entities ! i) ! 0
       \<and> tokens (analytics_queries ! (2 * i + 1)) = spec_replace (spec_entities ! i) ! 1"
proof -
  let ?ps = "populate_statements (config self)"
  let ?l = "answers X (issued self) ?ps"
  have len: "length ?ps = 11"
    by (simp add: populate_statements_def length_analytics_queries)
  from switch have pop: "populate_analytics_tables X self = (Inr (), extend self ?l)"
    by (simp add: populate_analytics_tables_extend populate_statements_def accepted_def Let_def
        split: response.splits)
  then have new: "new_entries self (snd (populate_analytics_tables X self)) = ?l"
    by (simp add: new_entries_def)
  from i len have k1: "Suc (2 * i) < length ?ps" and k2: "Suc (Suc (2 * i)) < length ?ps"
    by simp_all
  have q1: "?ps ! Suc (2 * i) = Statement (analytics_queries ! (2 * i)) []"
    using i by (simp add: populate_statements_def length_analytics_queries)
  have q2: "?ps ! Suc (Suc (2 * i)) = Statement (analytics_queries ! (2 * i + 1)) []"
    using i by (simp add: populate_statements_def length_analytics_queries)
  have e1: "?l ! Suc (2 * i) = (Statement (analytics_queries ! (2 * i)) [], Raises e)"
    using answers_nth [OF k1, of X "issued self"] q1 fails by simp
  have e2: "?l ! Suc (Suc (2 * i)) =
      (Statement (analytics_queries ! (2 * i + 1)) [],
       X (issued self @ take (Suc (Suc (2 * i))) ?ps)
         (Statement (analytics_queries ! (2 * i + 1)) []))"
    using answers_nth [OF k2, of X "issued self"] q2 by simp
  have "take 2 (drop (Suc (2 * i)) ?l) = [?l ! Suc (2 * i), ?l ! Suc (Suc (2 * i))]"
  proof -
    have l: "Suc (Suc (2 * i)) < length ?l" using k2 by simp
    then have "drop (Suc (2 * i)) ?l = ?l ! Suc (2 * i) # drop (Suc (Suc (2 * i))) ?l"
      by (simp add: Cons_nth_drop_Suc)
    moreover from l have "drop (Suc (Suc (2 * i))) ?l =
        ?l ! Suc (Suc (2 * i)) # drop (Suc (Suc (Suc (2 * i)))) ?l"
      by (simp add: Cons_nth_drop_Suc)
    ultimately show ?thesis by (simp add: numeral_2_eq_2)
  qed
  with new e1 e2 entity_tokens [OF i] show ?thesis by simp
qed

theorem truncate_failure_keeps_insert_witness:
  "take 2 (drop 1 (cursor (snd (populate_analytics_tables truncate_fails start)))) =
     [(Statement ''TRUNCATE TABLE ANALYTICS.PATIENTS_FACT'' [],
       Raises (DatabaseError ''insufficient privileges'')),
      (Statement (analytics_queries ! 1) [], Result [] None)]"
  using truncate_failure_keeps_insert
    [of truncate_fails start 0 "DatabaseError ''insufficient privileges''"]
  by (simp add: truncate_fails_def start_def main_config_def use_warehouse_def accepted_def
      issued_def new_entries_def analytics_queries_def populate_statements_def)

end
